theory Spec2Isabelle
  imports
    Main
    "HOL-Library.Word"
    "HOL-Library.Char_ord"
    "HOL-Library.List_Lexorder"
    "HOL-Library.Sublist"
begin

section \<open>The launcher of xyjwsj/grod: flag store and process supervision\<close>

text \<open>
  The development embeds \<^verbatim>\<open>lib/launcher\<close> (the file holding \<^verbatim>\<open>type Launcher struct\<close>):
  the flag store (\<^verbatim>\<open>Set\<close>, \<^verbatim>\<open>Get\<close>, \<^verbatim>\<open>Has\<close>, \<^verbatim>\<open>GetFlags\<close>, \<^verbatim>\<open>Append\<close>, \<^verbatim>\<open>Delete\<close>,
  \<^verbatim>\<open>FormatArgs\<close>) and the supervisor (\<^verbatim>\<open>Launch\<close>, \<^verbatim>\<open>hasLaunched\<close>, \<^verbatim>\<open>getBin\<close>,
  \<^verbatim>\<open>setupUserPreferences\<close>, \<^verbatim>\<open>setupCmd\<close>, \<^verbatim>\<open>getURL\<close>, \<^verbatim>\<open>Kill\<close>).
\<close>

subsection \<open>Go values: strings, slices of strings, errors and panics\<close>

text \<open>
  A Go \<^verbatim>\<open>string\<close> is a byte sequence, here a \<^typ>\<open>string\<close>; \<^verbatim>\<open>sort.Strings\<close> and \<^verbatim>\<open><\<close>
  compare bytewise, which is the lexicographic order on \<^typ>\<open>char list\<close>.

  A Go slice is a header (pointer, length, capacity) into a backing array, and two
  headers may share cells. \<^verbatim>\<open>FormatArgs\<close> writes through such a header (\<^verbatim>\<open>v[0] = abs\<close>),
  so slices are modelled as headers into an explicit heap of string cells rather than
  as lists. The nil slice is a header of its own: \<^verbatim>\<open>FormatArgs\<close> tells it apart from an
  empty slice (\<^verbatim>\<open>v != nil\<close>).
\<close>

type_synonym flag = string
type_synonym addr = nat
type_synonym cells = "addr \<Rightarrow> string"

datatype slice = NilSlice | Slice addr nat nat
  \<comment> \<open>\<open>Slice p n c\<close>: first cell \<open>p\<close>, length \<open>n\<close>, capacity \<open>c\<close>\<close>

datatype error = ErrAlreadyLaunched | Err string
  \<comment> \<open>Go \<^verbatim>\<open>error\<close> values: the launcher's own sentinel, and any other error by its text\<close>

datatype panic = IndexOutOfRange | PanicError error | PanicMsg string
  \<comment> \<open>a run-time panic: an index out of range, \<^verbatim>\<open>utils.E(err)\<close>, or \<^verbatim>\<open>panic(msg)\<close>\<close>

fun len :: "slice \<Rightarrow> nat" where
  "len NilSlice = 0"
| "len (Slice p n c) = n"


fun elems :: "cells \<Rightarrow> slice \<Rightarrow> string list" where
  "elems h NilSlice = []"
| "elems h (Slice p n c) = map h [p..<p + n]"

text \<open>\<^verbatim>\<open>s[i]\<close> as a read and \<^verbatim>\<open>s[i] = x\<close> as a write; both panic when \<open>i\<close> is not below the length.\<close>

fun index :: "cells \<Rightarrow> slice \<Rightarrow> nat \<Rightarrow> panic + string" where
  "index h NilSlice i = Inl IndexOutOfRange"
| "index h (Slice p n c) i = (if i < n then Inr (h (p + i)) else Inl IndexOutOfRange)"

fun assign :: "cells \<Rightarrow> slice \<Rightarrow> nat \<Rightarrow> string \<Rightarrow> panic + cells" where
  "assign h NilSlice i x = Inl IndexOutOfRange"
| "assign h (Slice p n c) i x = (if i < n then Inr (h(p + i := x)) else Inl IndexOutOfRange)"


text \<open>\<^verbatim>\<open>strings.Join(v, sep)\<close>.\<close>

fun Join :: "string list \<Rightarrow> string \<Rightarrow> string" where
  "Join [] sep = []"
| "Join [x] sep = x"
| "Join (x # y # ys) sep = x @ sep @ Join (y # ys) sep"

subsection \<open>The package \<^verbatim>\<open>flags\<close> and the launcher state\<close>

text \<open>
  The package \<^verbatim>\<open>lib/launcher/flags\<close> (the type \<^verbatim>\<open>Flag\<close>, its methods \<^verbatim>\<open>NormalizeFlag\<close>
  and \<^verbatim>\<open>Check\<close>, and the flag-name constants) is not part of the sources at hand. It is
  a parameter of every function below: a record of the two methods and of the constants
  the launcher refers to. \<open>Check\<close> yields the panic it raises, or \<open>None\<close> when it returns.
\<close>

record flags_pkg =
  NormalizeFlag :: "flag \<Rightarrow> flag"
  Check :: "flag \<Rightarrow> panic option"
  Arguments :: flag
  UserDataDir :: flag
  Bin :: flag
  Leakless :: flag
  RemoteDebuggingPort :: flag
  Preferences :: flag
  ProfileDir :: flag
  WorkingDir :: flag
  Env :: flag

text \<open>
  The fields of an \<^verbatim>\<open>exec.Cmd\<close> that \<^verbatim>\<open>Launch\<close> and \<^verbatim>\<open>setupCmd\<close> set. A nil \<^verbatim>\<open>Env\<close> is
  \<open>None\<close>. \<open>viaLeakless\<close> tells a command built by \<^verbatim>\<open>leakless.New().Command\<close> from one
  built by \<^verbatim>\<open>exec.Command\<close>.
\<close>

record cmd =
  cmdPath :: string
  cmdArgs :: "string list"
  cmdDir :: string
  cmdEnv :: "string list option"
  viaLeakless :: bool

text \<open>
  What the launcher does to the world outside, in the order it does it:
  \<^verbatim>\<open>utils.Sleep(n)\<close>, \<^verbatim>\<open>killGroup(pid)\<close>, \<^verbatim>\<open>p.Kill()\<close> on the process found for a pid,
  \<^verbatim>\<open>utils.OutputFile(path, data)\<close>, \<^verbatim>\<open>l.browser.Get()\<close> and \<^verbatim>\<open>cmd.Start()\<close>.
\<close>

datatype event =
    Sleep nat
  | KillGroup int
  | KillProcess int
  | WriteFile string string
  | BrowserGet
  | Start cmd

text \<open>
  The fields of \<^verbatim>\<open>Launcher\<close> that the modelled methods read or write, together with
  what they reach: \<open>heap\<close> holds the string cells the flag slices point into and \<open>brk\<close>
  is the first cell never allocated; \<open>ctxCancelled\<close> records that \<^verbatim>\<open>l.ctxCancel\<close> has
  run; \<open>trace\<close> lists the events so far, oldest first.
\<close>

record launcher =
  Flags :: "flag \<rightharpoonup> slice"
  heap :: cells
  brk :: addr
  pid :: int
  isLaunched :: "32 word"
  ctxCancelled :: bool
  trace :: "event list"

subsection \<open>The flag store\<close>

definition Set :: "flags_pkg \<Rightarrow> flag \<Rightarrow> slice \<Rightarrow> launcher \<Rightarrow> panic + launcher" where
  "Set F name values l =
     (case Check F name of
        Some p \<Rightarrow> Inl p
      | None \<Rightarrow> Inr (l\<lparr>Flags := (Flags l)(NormalizeFlag F name \<mapsto> values)\<rparr>))"

text \<open>A map read \<^verbatim>\<open>flag, has := l.Flags[k]\<close> yields the nil slice and \<^verbatim>\<open>false\<close> on a missing key.\<close>

definition GetFlags :: "flags_pkg \<Rightarrow> flag \<Rightarrow> launcher \<Rightarrow> slice \<times> bool" where
  "GetFlags F name l =
     (case Flags l (NormalizeFlag F name) of
        None \<Rightarrow> (NilSlice, False)
      | Some flag \<Rightarrow> (flag, True))"

definition Get :: "flags_pkg \<Rightarrow> flag \<Rightarrow> launcher \<Rightarrow> panic + string" where
  "Get F name l =
     (case GetFlags F name l of
        (list, has) \<Rightarrow> if has then index (heap l) list 0 else Inr [])"

definition Has :: "flags_pkg \<Rightarrow> flag \<Rightarrow> launcher \<Rightarrow> bool" where
  "Has F name l = snd (GetFlags F name l)"





text \<open>
  The string \<^verbatim>\<open>FormatArgs\<close> builds for one flag: \<^verbatim>\<open>"--" + k\<close>, followed by \<^verbatim>\<open>"="\<close> and
  the comma-joined values unless the list is nil.
\<close>

definition flagStr :: "cells \<Rightarrow> flag \<Rightarrow> slice \<Rightarrow> string" where
  "flagStr h k v = ''--'' @ k @ (if v \<noteq> NilSlice then ''='' @ Join (elems h v) '','' else [])"

text \<open>
  The three statements of \<^verbatim>\<open>FormatArgs\<close> on the key \<^verbatim>\<open>flags.UserDataDir\<close>, as one step on
  the heap: \<^verbatim>\<open>abs, err := filepath.Abs(v[0]); utils.E(err); v[0] = abs\<close>. \<open>Abs\<close> is
  \<^verbatim>\<open>filepath.Abs\<close>, which depends on the working directory of the process; \<^verbatim>\<open>utils.E\<close>
  panics on its error.
\<close>

definition absUserDataDir :: "(string \<Rightarrow> error + string) \<Rightarrow> cells \<Rightarrow> slice \<Rightarrow> panic + cells" where
  "absUserDataDir Abs h v =
     (case index h v 0 of
        Inl p \<Rightarrow> Inl p
      | Inr d \<Rightarrow> (case Abs d of Inl e \<Rightarrow> Inl (PanicError e) | Inr a \<Rightarrow> assign h v 0 a))"

text \<open>
  The loop \<^verbatim>\<open>for k, v := range l.Flags\<close> of \<^verbatim>\<open>FormatArgs\<close>. Go visits the keys of a map in
  an order of its own choosing: \<open>ks\<close> is that order (each key of the map once), \<open>m\<close> the
  map, \<open>h\<close> the heap and \<open>execArgs\<close> the list built so far. A name in \<open>ks\<close> that is no
  key of \<open>m\<close> is passed over. The heap is returned also when the loop panics.
\<close>

fun formatLoop ::
  "flags_pkg \<Rightarrow> (string \<Rightarrow> error + string) \<Rightarrow> (flag \<rightharpoonup> slice) \<Rightarrow> flag list \<Rightarrow> cells \<Rightarrow>
   string list \<Rightarrow> (panic + string list) \<times> cells" where
  "formatLoop F Abs m [] h execArgs = (Inr execArgs, h)"
| "formatLoop F Abs m (k # ks) h execArgs =
     (case m k of
        None \<Rightarrow> formatLoop F Abs m ks h execArgs
      | Some v \<Rightarrow>
          if k = Arguments F then formatLoop F Abs m ks h execArgs
          else if prefix ''rod-'' k then formatLoop F Abs m ks h execArgs
          else
            (case (if k = UserDataDir F then absUserDataDir Abs h v else Inr h) of
               Inl p \<Rightarrow> (Inl p, h)
             | Inr h' \<Rightarrow> formatLoop F Abs m ks h' (execArgs @ [flagStr h' k v])))"

text \<open>
  \<^verbatim>\<open>FormatArgs\<close>: the loop, then \<^verbatim>\<open>append(execArgs, l.Flags[flags.Arguments]...)\<close> (a map
  read, nil when the key is missing), then \<^verbatim>\<open>sort.Strings\<close> on the whole list.
\<close>

definition positional :: "flags_pkg \<Rightarrow> launcher \<Rightarrow> slice" where
  "positional F l = (case Flags l (Arguments F) of None \<Rightarrow> NilSlice | Some v \<Rightarrow> v)"

definition FormatArgs ::
  "flags_pkg \<Rightarrow> (string \<Rightarrow> error + string) \<Rightarrow> flag list \<Rightarrow> launcher \<Rightarrow>
   (panic + string list) \<times> launcher" where
  "FormatArgs F Abs ks l =
     (case formatLoop F Abs (Flags l) ks (heap l) [] of
        (Inl p, h) \<Rightarrow> (Inl p, l\<lparr>heap := h\<rparr>)
      | (Inr execArgs, h) \<Rightarrow>
          (Inr (sort (execArgs @ elems h (positional F l))), l\<lparr>heap := h\<rparr>))"


subsection \<open>The world outside the launcher\<close>

text \<open>
  \<^verbatim>\<open>getURL\<close> waits in a \<^verbatim>\<open>select\<close> on three channels; which of them is served is
  decided outside the launcher. A \<open>signal\<close> names the case that is served.
\<close>

datatype signal = CtxDone | URLDelivered string | ProcessExited

text \<open>
  Everything \<^verbatim>\<open>Launch\<close> and \<^verbatim>\<open>Kill\<close> obtain from outside is a field of \<open>world\<close>:
  \<^item> \<open>rangeOrder\<close>: the order in which \<^verbatim>\<open>range l.Flags\<close> visits the keys in \<^verbatim>\<open>FormatArgs\<close>;
  \<^item> \<open>filepathAbs\<close>, \<open>filepathJoin\<close>: \<^verbatim>\<open>filepath.Abs\<close> and \<^verbatim>\<open>filepath.Join\<close>;
  \<^item> \<open>browserGet\<close>: the result of \<^verbatim>\<open>l.browser.Get()\<close>;
  \<^item> \<open>OutputFile\<close>: the error of \<^verbatim>\<open>utils.OutputFile(path, data)\<close>, if any;
  \<^item> \<open>leaklessSupport\<close>: \<^verbatim>\<open>leakless.Support()\<close>;
  \<^item> \<open>ResolveURL_port\<close>: \<^verbatim>\<open>ResolveURL\<close> as called on the debugging port before a spawn,
    \<open>ResolveURL_final\<close>: \<^verbatim>\<open>ResolveURL\<close> as called on the URL that \<^verbatim>\<open>getURL\<close> returned
    (the function is not among the sources, and the two calls happen at different times);
  \<^item> \<open>osSetupCmd\<close>: what \<^verbatim>\<open>l.osSetupCmd(cmd)\<close> makes of the command for the launcher
    it is called on (the method is specific to the operating system and not among
    the sources);
  \<^item> \<open>cmdStart\<close>: the error of \<^verbatim>\<open>cmd.Start()\<close>, if any; \<open>processPid\<close>: \<^verbatim>\<open>cmd.Process.Pid\<close>;
  \<^item> \<open>leaklessPid\<close>: the value received from \<^verbatim>\<open>ll.Pid()\<close>, \<open>None\<close> when none ever
    arrives; \<open>leaklessErr\<close>: \<^verbatim>\<open>ll.Err()\<close>;
  \<^item> \<open>fired\<close>: the case of the \<^verbatim>\<open>select\<close> in \<^verbatim>\<open>getURL\<close> that is served, \<open>None\<close> when none
    ever is; \<open>ctxErr\<close>: \<^verbatim>\<open>l.ctx.Err()\<close> once the context is done; \<open>parserErr\<close>:
    \<^verbatim>\<open>l.parser.Err()\<close>, \<open>None\<close> for a nil error;
  \<^item> \<open>FindProcess\<close>: whether \<^verbatim>\<open>os.FindProcess(pid)\<close> returns a process (a nil error).
\<close>

record world =
  rangeOrder :: "flag list"
  filepathAbs :: "string \<Rightarrow> error + string"
  filepathJoin :: "string list \<Rightarrow> string"
  browserGet :: "error + string"
  OutputFile :: "string \<Rightarrow> string \<Rightarrow> error option"
  leaklessSupport :: bool
  ResolveURL_port :: "string \<Rightarrow> error + string"
  osSetupCmd :: "launcher \<Rightarrow> cmd \<Rightarrow> cmd"
  cmdStart :: "cmd \<Rightarrow> error option"
  processPid :: int
  leaklessPid :: "int option"
  leaklessErr :: string
  fired :: "signal option"
  ctxErr :: error
  parserErr :: "error option"
  ResolveURL_final :: "string \<Rightarrow> error + string"
  FindProcess :: "int \<Rightarrow> bool"

text \<open>
  A call either returns a value, panics, or never returns (it waits on a channel that
  is never served).
\<close>

datatype 'a outcome = Returned 'a | Panicked panic | NoReturn

type_synonym result = "(error + string) outcome"

subsection \<open>The process supervisor\<close>

text \<open>\<^verbatim>\<open>atomic.CompareAndSwapInt32(&l.isLaunched, 0, 1)\<close>, negated: one atomic step.\<close>

definition hasLaunched :: "launcher \<Rightarrow> bool \<times> launcher" where
  "hasLaunched l = (if isLaunched l = 0 then (False, l\<lparr>isLaunched := 1\<rparr>) else (True, l))"

definition PID :: "launcher \<Rightarrow> int" where
  "PID l = pid l"

definition Kill :: "world \<Rightarrow> launcher \<Rightarrow> launcher" where
  "Kill w l =
     (let l1 = l\<lparr>trace := trace l @ [Sleep 1]\<rparr> in
      if PID l1 = 0 then l1
      else
        (let l2 = l1\<lparr>trace := trace l1 @ [KillGroup (PID l1)]\<rparr> in
         if FindProcess w (PID l2) then l2\<lparr>trace := trace l2 @ [KillProcess (PID l2)]\<rparr>
         else l2))"

definition getBin :: "flags_pkg \<Rightarrow> world \<Rightarrow> launcher \<Rightarrow> (panic + (error + string)) \<times> launcher" where
  "getBin F w l =
     (case Get F (Bin F) l of
        Inl p \<Rightarrow> (Inl p, l)
      | Inr bin \<Rightarrow>
          if bin = [] then (Inr (browserGet w), l\<lparr>trace := trace l @ [BrowserGet]\<rparr>)
          else (Inr (Inr bin), l))"

definition setupUserPreferences :: "flags_pkg \<Rightarrow> world \<Rightarrow> launcher \<Rightarrow> panic option \<times> launcher" where
  "setupUserPreferences F w l =
     (case Get F (UserDataDir F) l of
        Inl p \<Rightarrow> (Some p, l)
      | Inr userDir \<Rightarrow>
          (case Get F (Preferences F) l of
             Inl p \<Rightarrow> (Some p, l)
           | Inr pref \<Rightarrow>
               if userDir = [] \<or> pref = [] then (None, l)
               else
                 (case filepathAbs w userDir of
                    Inl err \<Rightarrow> (Some (PanicError err), l)
                  | Inr userDir' \<Rightarrow>
                      (case Get F (ProfileDir F) l of
                         Inl p \<Rightarrow> (Some p, l)
                       | Inr profile \<Rightarrow>
                           (let profile' = (if profile = [] then ''Default'' else profile);
                                path = filepathJoin w [userDir', profile', ''Preferences''];
                                l1 = l\<lparr>trace := trace l @ [WriteFile path pref]\<rparr>
                            in case OutputFile w path pref of
                                 Some err \<Rightarrow> (Some (PanicError err), l1)
                               | None \<Rightarrow> (None, l1))))))"

text \<open>
  The command as \<^verbatim>\<open>ll.Command(bin, args...)\<close> or \<^verbatim>\<open>exec.Command(bin, args...)\<close> returns it,
  and \<^verbatim>\<open>setupCmd\<close>: first \<^verbatim>\<open>l.osSetupCmd(cmd)\<close>, then the working directory and the
  environment from the flags (the two writers of the output are not modelled).
\<close>

definition Command :: "bool \<Rightarrow> string \<Rightarrow> string list \<Rightarrow> cmd" where
  "Command leakless bin args =
     \<lparr>cmdPath = bin, cmdArgs = args, cmdDir = [], cmdEnv = None, viaLeakless = leakless\<rparr>"

definition setupCmd :: "flags_pkg \<Rightarrow> world \<Rightarrow> cmd \<Rightarrow> launcher \<Rightarrow> panic + cmd" where
  "setupCmd F w c l =
     (let c1 = osSetupCmd w l c in
      case Get F (WorkingDir F) l of
        Inl p \<Rightarrow> Inl p
      | Inr dir \<Rightarrow>
          (let env = fst (GetFlags F (Env F) l) in
           Inr (c1\<lparr>cmdDir := dir,
                   cmdEnv := (if env = NilSlice then None else Some (elems (heap l) env))\<rparr>)))"

text \<open>
  \<^verbatim>\<open>getURL\<close>: the string and the error it returns, \<open>None\<close> when no case of the
  \<^verbatim>\<open>select\<close> is ever served.
\<close>

definition getURL :: "world \<Rightarrow> (string \<times> error option) option" where
  "getURL w =
     (case fired w of
        None \<Rightarrow> None
      | Some CtxDone \<Rightarrow> Some ([], Some (ctxErr w))
      | Some (URLDelivered u) \<Rightarrow> Some (u, None)
      | Some ProcessExited \<Rightarrow> Some ([], parserErr w))"

text \<open>
  \<^verbatim>\<open>Launch\<close> in four stages, each yielding either the outcome of \<^verbatim>\<open>Launch\<close> (\<open>Inl\<close>, when
  the stage ends the call) or what the next stage needs (\<open>Inr\<close>):
  \<^item> \<open>launch_prepare\<close>: \<^verbatim>\<open>getBin\<close>, \<^verbatim>\<open>setupUserPreferences\<close>, \<^verbatim>\<open>FormatArgs\<close>;
  \<^item> \<open>launch_command\<close>: the choice between the leakless command and, after a failed
    \<^verbatim>\<open>ResolveURL(port)\<close>, the plain command; \<open>Inr\<close> tells whether it is the leakless one;
  \<^item> \<open>launch_start\<close>: the command built, \<^verbatim>\<open>setupCmd\<close>, \<^verbatim>\<open>cmd.Start()\<close> and the assignment
    of \<^verbatim>\<open>l.pid\<close>;
  \<^item> \<open>launch_wait\<close>: \<^verbatim>\<open>getURL\<close>, then \<^verbatim>\<open>Kill\<close> on its error or \<^verbatim>\<open>ResolveURL(u)\<close>.
\<close>

definition launch_prepare ::
  "flags_pkg \<Rightarrow> world \<Rightarrow> launcher \<Rightarrow> (result + string \<times> string list) \<times> launcher" where
  "launch_prepare F w l =
     (case getBin F w l of
        (Inl p, l1) \<Rightarrow> (Inl (Panicked p), l1)
      | (Inr (Inl err), l1) \<Rightarrow> (Inl (Returned (Inl err)), l1)
      | (Inr (Inr bin), l1) \<Rightarrow>
          (case setupUserPreferences F w l1 of
             (Some p, l2) \<Rightarrow> (Inl (Panicked p), l2)
           | (None, l2) \<Rightarrow>
               (case FormatArgs F (filepathAbs w) (rangeOrder w) l2 of
                  (Inl p, l3) \<Rightarrow> (Inl (Panicked p), l3)
                | (Inr args, l3) \<Rightarrow> (Inr (bin, args), l3))))"

definition launch_command :: "flags_pkg \<Rightarrow> world \<Rightarrow> launcher \<Rightarrow> (result + bool) \<times> launcher" where
  "launch_command F w l =
     (if Has F (Leakless F) l \<and> leaklessSupport w then (Inr True, l)
      else
        (case Get F (RemoteDebuggingPort F) l of
           Inl p \<Rightarrow> (Inl (Panicked p), l)
         | Inr port \<Rightarrow>
             (case ResolveURL_port w port of
                Inr u \<Rightarrow> (Inl (Returned (Inr u)), l)
              | Inl err \<Rightarrow> (Inr False, l))))"

definition launch_start ::
  "flags_pkg \<Rightarrow> world \<Rightarrow> bool \<Rightarrow> string \<Rightarrow> string list \<Rightarrow> launcher \<Rightarrow>
   (result + unit) \<times> launcher" where
  "launch_start F w leakless bin args l =
     (case setupCmd F w (Command leakless bin args) l of
        Inl p \<Rightarrow> (Inl (Panicked p), l)
      | Inr c \<Rightarrow>
          (let l1 = l\<lparr>trace := trace l @ [Start c]\<rparr> in
           case cmdStart w c of
             Some err \<Rightarrow> (Inl (Returned (Inl err)), l1)
           | None \<Rightarrow>
               if \<not> leakless then (Inr (), l1\<lparr>pid := processPid w\<rparr>)
               else
                 (case leaklessPid w of
                    None \<Rightarrow> (Inl NoReturn, l1)
                  | Some p \<Rightarrow>
                      if leaklessErr w \<noteq> []
                      then (Inl (Returned (Inl (Err (leaklessErr w)))), l1\<lparr>pid := p\<rparr>)
                      else (Inr (), l1\<lparr>pid := p\<rparr>))))"

definition launch_wait :: "world \<Rightarrow> launcher \<Rightarrow> result \<times> launcher" where
  "launch_wait w l =
     (case getURL w of
        None \<Rightarrow> (NoReturn, l)
      | Some (u, Some err) \<Rightarrow> (Returned (Inl err), Kill w l)
      | Some (u, None) \<Rightarrow> (Returned (ResolveURL_final w u), l))"

definition launch_body :: "flags_pkg \<Rightarrow> world \<Rightarrow> launcher \<Rightarrow> result \<times> launcher" where
  "launch_body F w l =
     (case launch_prepare F w l of
        (Inl r, l1) \<Rightarrow> (r, l1)
      | (Inr (bin, args), l1) \<Rightarrow>
          (case launch_command F w l1 of
             (Inl r, l2) \<Rightarrow> (r, l2)
           | (Inr leakless, l2) \<Rightarrow>
               (case launch_start F w leakless bin args l2 of
                  (Inl r, l3) \<Rightarrow> (r, l3)
                | (Inr u, l3) \<Rightarrow> launch_wait w l3)))"

text \<open>
  \<^verbatim>\<open>defer l.ctxCancel()\<close>: the context is cancelled when \<^verbatim>\<open>Launch\<close> returns or panics,
  not when it never returns.
\<close>

definition ctxCancel_deferred :: "result \<times> launcher \<Rightarrow> result \<times> launcher" where
  "ctxCancel_deferred rl =
     (case rl of (r, l) \<Rightarrow> if r = NoReturn then (r, l) else (r, l\<lparr>ctxCancelled := True\<rparr>))"

definition Launch :: "flags_pkg \<Rightarrow> world \<Rightarrow> launcher \<Rightarrow> result \<times> launcher" where
  "Launch F w l =
     (case hasLaunched l of
        (True, l0) \<Rightarrow> (Returned (Inl ErrAlreadyLaunched), l0)
      | (False, l0) \<Rightarrow> ctxCancel_deferred (launch_body F w l0))"

subsection \<open>Notions used to state the properties of \<^verbatim>\<open>FormatArgs\<close>\<close>

text \<open>
  A flag is passed to the browser unless it is the positional one (\<^verbatim>\<open>flags.Arguments\<close>) or
  internal (its name starts with \<^verbatim>\<open>rod-\<close>).
\<close>

definition visible :: "flags_pkg \<Rightarrow> flag \<Rightarrow> bool" where
  "visible F k = (k \<noteq> Arguments F \<and> \<not> prefix ''rod-'' k)"

text \<open>The first cell of a slice, and whether a slice reads a given cell.\<close>

fun ptr :: "slice \<Rightarrow> addr" where
  "ptr NilSlice = 0"
| "ptr (Slice p n c) = p"

fun covers :: "slice \<Rightarrow> addr \<Rightarrow> bool" where
  "covers NilSlice q = False"
| "covers (Slice p n c) q = (p \<le> q \<and> q < p + n)"

text \<open>
  The argument of one flag as the specification words it: \<^verbatim>\<open>--name\<close> for a nil list,
  \<^verbatim>\<open>--name=v1,v2,...\<close> otherwise. \<open>flagBlock\<close> lists the arguments of the visible flags
  among \<open>ks\<close>, in the order of \<open>ks\<close>, with the values read from the heap \<open>h\<close>.
\<close>

fun render :: "cells \<Rightarrow> flag \<Rightarrow> slice \<Rightarrow> string" where
  "render h k NilSlice = ''--'' @ k"
| "render h k (Slice p n c) = ''--'' @ k @ ''='' @ Join (elems h (Slice p n c)) '',''"

fun flagBlock :: "flags_pkg \<Rightarrow> cells \<Rightarrow> (flag \<rightharpoonup> slice) \<Rightarrow> flag list \<Rightarrow> string list" where
  "flagBlock F h m [] = []"
| "flagBlock F h m (k # ks) =
     (case m k of
        None \<Rightarrow> flagBlock F h m ks
      | Some v \<Rightarrow> if visible F k then render h k v # flagBlock F h m ks else flagBlock F h m ks)"

text \<open>
  The argument list as the specification words it, for comparison with \<open>FormatArgs\<close>:
  the flag block sorted, then the positional values in their stored order.
\<close>

definition spec_FormatArgs :: "flags_pkg \<Rightarrow> flag list \<Rightarrow> launcher \<Rightarrow> string list" where
  "spec_FormatArgs F ks l =
     sort (flagBlock F (heap l) (Flags l) ks) @ elems (heap l) (positional F l)"

text \<open>
  The cell \<open>FormatArgs\<close> overwrites is not shared: when \<^verbatim>\<open>flags.UserDataDir\<close> is a visible
  flag of the map and its list has a first cell, no other visible flag among \<open>ks\<close> has
  a list that reads this cell. It holds of every map in which the flag is missing or
  not visible, or its list is nil or empty.
\<close>

definition separate :: "flags_pkg \<Rightarrow> (flag \<rightharpoonup> slice) \<Rightarrow> flag list \<Rightarrow> bool" where
  "separate F m ks =
     (case (if visible F (UserDataDir F) then m (UserDataDir F) else None) of
        None \<Rightarrow> True
      | Some w \<Rightarrow>
          if len w = 0 then True
          else
            list_all
              (\<lambda>k. if k = UserDataDir F then True
                   else if visible F k then
                     (case m k of None \<Rightarrow> True | Some v \<Rightarrow> \<not> covers v (ptr w))
                   else True) ks)"

subsection \<open>The transport\<close>

text \<open>
  Modelled from the spec: the state of a transport instance. The transport (the type
  \<^verbatim>\<open>WebSocket\<close> of \<^verbatim>\<open>lib/cdp\<close> and its method \<^verbatim>\<open>Connect\<close>) is not among the sources; only
  its test \<^verbatim>\<open>TestDuplicatedConnectErr\<close> is, which connects once without error and
  expects the second \<^verbatim>\<open>Connect\<close> on the same instance to panic. \<open>connectCalled\<close> records
  that \<^verbatim>\<open>Connect\<close> has been called on the instance, \<open>handshakes\<close> counts the handshakes
  performed on it.
\<close>

record WebSocket =
  connectCalled :: bool
  handshakes :: nat

text \<open>
  Modelled from the spec: \<^verbatim>\<open>Connect\<close>, which is missing with the transport. As the
  specification has it, \<^verbatim>\<open>Connect\<close> is one-shot per instance: the first call performs
  the handshake and yields its outcome (\<open>handshake\<close>: the error of the handshake, if
  any); any later call on the instance fails as a programmer error, here the panic
  that the test expects, and neither performs a handshake again nor reuses the
  connection.
\<close>

definition Connect :: "error option \<Rightarrow> WebSocket \<Rightarrow> (panic + error option) \<times> WebSocket" where
  "Connect handshake ws =
     (if connectCalled ws then (Inl (PanicMsg ''duplicated connection''), ws)
      else (Inr handshake, ws\<lparr>connectCalled := True, handshakes := Suc (handshakes ws)\<rparr>))"

subsection \<open>Concrete data for evaluation\<close>

text \<open>
  An instance of the package \<^verbatim>\<open>flags\<close> for running the model on concrete inputs:
  names are normalised by dropping leading dashes, a name holding \<^verbatim>\<open>=\<close> is rejected.
  The theorems below hold for every instance; this one only feeds examples.
\<close>

definition flags_example :: flags_pkg where
  "flags_example =
     \<lparr>NormalizeFlag = dropWhile (\<lambda>c. c = CHR ''-''),
      Check = (\<lambda>n. if CHR ''='' \<in> set n then Some (PanicMsg ''flag name should not contain =='') else None),
      Arguments = [],
      UserDataDir = ''user-data-dir'',
      Bin = ''rod-bin'',
      Leakless = ''rod-leakless'',
      RemoteDebuggingPort = ''remote-debugging-port'',
      Preferences = ''rod-preferences'',
      ProfileDir = ''profile-directory'',
      WorkingDir = ''rod-working-dir'',
      Env = ''rod-env''\<rparr>"

text \<open>A launcher with no flags, an empty heap, no process and nothing done yet.\<close>

definition launcher0 :: launcher where
  "launcher0 =
     \<lparr>Flags = Map.empty, heap = (\<lambda>_. []), brk = 0, pid = 0, isLaunched = 0,
      ctxCancelled = False, trace = []\<rparr>"

text \<open>
  \<^verbatim>\<open>filepath.Abs\<close> in a process whose working directory is \<^verbatim>\<open>/cwd\<close>, on paths that need
  no cleaning.
\<close>

definition Abs_example :: "string \<Rightarrow> error + string" where
  "Abs_example p = (if prefix ''/'' p then Inr p else Inr (''/cwd/'' @ p))"

text \<open>
  A store with a value-less flag, two positional values, the binary and a relative
  user-data directory, each list in cells of its own; and an order of visiting its keys.
\<close>

definition store_example :: launcher where
  "store_example =
     launcher0
       \<lparr>Flags := [''headless'' \<mapsto> NilSlice, [] \<mapsto> Slice 0 2 2, ''rod-bin'' \<mapsto> Slice 3 1 1,
                  ''user-data-dir'' \<mapsto> Slice 2 1 1],
        heap := (\<lambda>_. [])(0 := ''https://b.example'', 1 := ''https://a.example'', 2 := ''tmp'',
                          3 := ''chrome''),
        brk := 4\<rparr>"

definition order_example :: "flag list" where
  "order_example = [''headless'', [], ''rod-bin'', ''user-data-dir'']"

text \<open>A store with a value-less flag and two positional values only.\<close>

definition positional_example :: launcher where
  "positional_example =
     launcher0
       \<lparr>Flags := [''headless'' \<mapsto> NilSlice, [] \<mapsto> Slice 0 2 2],
        heap := (\<lambda>_. [])(0 := ''https://b.example'', 1 := ''https://a.example''),
        brk := 2\<rparr>"


text \<open>
  A store in which two flags hold the same slice, as after
  \<^verbatim>\<open>vals := []string{"tmp"}; l.Set("x", vals...); l.Set("user-data-dir", vals...)\<close>.
\<close>

definition shared_before :: launcher where
  "shared_before = launcher0\<lparr>heap := (\<lambda>_. [])(0 := ''tmp''), brk := 1\<rparr>"

definition shared_example :: launcher where
  "shared_example =
     shared_before\<lparr>Flags := [''x'' \<mapsto> Slice 0 1 1, ''user-data-dir'' \<mapsto> Slice 0 1 1]\<rparr>"

text \<open>
  A world in which nothing listens on the debugging port, the browser starts as
  process 4242, announces its URL, and \<^verbatim>\<open>ResolveURL\<close> confirms that URL; and a launcher
  configured without leakless, with the binary, the port and a user-data directory.
\<close>

definition world_example :: world where
  "world_example =
     \<lparr>rangeOrder = [''rod-bin'', ''remote-debugging-port'', ''user-data-dir''],
      filepathAbs = Abs_example,
      filepathJoin = (\<lambda>ps. Join ps ''/''),
      browserGet = Inl (Err ''no browser''),
      OutputFile = (\<lambda>path data. None),
      leaklessSupport = True,
      ResolveURL_port = (\<lambda>port. Inl (Err ''connection refused'')),
      osSetupCmd = (\<lambda>l c. c),
      cmdStart = (\<lambda>c. None),
      processPid = 4242,
      leaklessPid = None,
      leaklessErr = [],
      fired = Some (URLDelivered ''ws://127.0.0.1:9222/devtools/browser/b1''),
      ctxErr = Err ''context canceled'',
      parserErr = Some (Err ''[launcher] Failed to get the debug url''),
      ResolveURL_final = Inr,
      FindProcess = (\<lambda>p. True)\<rparr>"

definition launcher_example :: launcher where
  "launcher_example =
     launcher0
       \<lparr>Flags := [''rod-bin'' \<mapsto> Slice 0 1 1, ''remote-debugging-port'' \<mapsto> Slice 1 1 1,
                  ''user-data-dir'' \<mapsto> Slice 2 1 1],
        heap := (\<lambda>_. [])(0 := ''chrome'', 1 := ''9222'', 2 := ''/tmp/rod''),
        brk := 3\<rparr>"

text \<open>The command \<^verbatim>\<open>Launch\<close> starts for \<open>launcher_example\<close> in \<open>world_example\<close>.\<close>

definition cmd_example :: cmd where
  "cmd_example =
     \<lparr>cmdPath = ''chrome'',
      cmdArgs = [''--remote-debugging-port=9222'', ''--user-data-dir=/tmp/rod''],
      cmdDir = [], cmdEnv = None, viaLeakless = False\<rparr>"

subsection \<open>Claims about the flag store\<close>

text \<open>
  C3. The claim: \<^verbatim>\<open>Get(name)\<close> returns the first value of a present flag and the empty
  string for an absent one, and never fails for a present flag, a value-less one
  included. The code indexes \<^verbatim>\<open>list[0]\<close> whenever the flag is present, so on a flag
  stored without values (\<^verbatim>\<open>l.Set(name)\<close>, a nil list) it panics with an index out of
  range. Evaluated below: after \<^verbatim>\<open>Set("headless")\<close> on an empty store, \<^verbatim>\<open>Has\<close> is true and
  \<^verbatim>\<open>Get("headless")\<close> panics.
\<close>

theorem Get_valueless_flag_panics:
  "Set flags_example ''headless'' NilSlice launcher0 =
     Inr (launcher0\<lparr>Flags := [''headless'' \<mapsto> NilSlice]\<rparr>) \<and>
   Has flags_example ''headless'' (launcher0\<lparr>Flags := [''headless'' \<mapsto> NilSlice]\<rparr>) \<and>
   Get flags_example ''headless'' (launcher0\<lparr>Flags := [''headless'' \<mapsto> NilSlice]\<rparr>) =
     Inl IndexOutOfRange"
  by (simp add: Set_def Has_def Get_def GetFlags_def flags_example_def launcher0_def)

text \<open>
  \<open>Get\<close> in full: the empty string for an absent flag, the first value for a present
  flag with a value, and the panic for a present flag whose list is nil or empty.
\<close>

lemma Get_cases:
  "Get F name l =
     (case Flags l (NormalizeFlag F name) of
        None \<Rightarrow> Inr []
      | Some v \<Rightarrow> if 0 < len v then Inr (heap l (ptr v)) else Inl IndexOutOfRange)"
proof (cases "Flags l (NormalizeFlag F name)")
  case None
  then show ?thesis by (simp add: Get_def GetFlags_def)
next
  case (Some v)
  then show ?thesis by (cases v) (simp_all add: Get_def GetFlags_def)
qed

lemma flagStr_render: "flagStr h k v = render h k v"
  by (cases v) (simp_all add: flagStr_def)

lemma elems_cong: "(\<And>q. covers v q \<Longrightarrow> h' q = h q) \<Longrightarrow> elems h' v = elems h v"
  by (cases v) auto

lemma render_cong:
  assumes "\<And>q. covers v q \<Longrightarrow> h' q = h q"
  shows "render h' k v = render h k v"
proof -
  have "elems h' v = elems h v" using assms by (rule elems_cong)
  then show ?thesis by (simp only: flagStr_render[symmetric] flagStr_def)
qed

lemma flagBlock_append:
  "flagBlock F h m (xs @ ys) = flagBlock F h m xs @ flagBlock F h m ys"
  by (induction xs) (auto split: option.splits)

lemma flagBlock_cong:
  "(\<And>k v q. k \<in> set ks \<Longrightarrow> visible F k \<Longrightarrow> m k = Some v \<Longrightarrow> covers v q \<Longrightarrow> h' q = h q) \<Longrightarrow>
   flagBlock F h' m ks = flagBlock F h m ks"
proof (induction ks)
  case Nil
  then show ?case by simp
next
  case (Cons k ks)
  have rest: "flagBlock F h' m ks = flagBlock F h m ks"
    using Cons.prems by (intro Cons.IH) auto
  show ?case
  proof (cases "m k")
    case None
    then show ?thesis using rest by simp
  next
    case (Some v)
    show ?thesis
    proof (cases "visible F k")
      case True
      have "render h' k v = render h k v"
        using Cons.prems[of k v] Some True by (intro render_cong) auto
      then show ?thesis using rest Some by simp
    next
      case False
      then show ?thesis using rest Some by simp
    qed
  qed
qed

text \<open>The loop on keys that do not include a visible, present \<^verbatim>\<open>flags.UserDataDir\<close>.\<close>

lemma formatLoop_no_udd:
  "UserDataDir F \<notin> set ks \<Longrightarrow>
   formatLoop F Abs m ks h acc = (Inr (acc @ flagBlock F h m ks), h)"
  by (induction ks arbitrary: acc) (auto simp: visible_def flagStr_render split: option.splits)

lemma formatLoop_hidden:
  "\<not> visible F (UserDataDir F) \<or> m (UserDataDir F) = None \<Longrightarrow>
   formatLoop F Abs m ks h acc = (Inr (acc @ flagBlock F h m ks), h)"
  by (induction ks arbitrary: acc) (auto simp: visible_def flagStr_render split: option.splits)

text \<open>The loop when it meets \<^verbatim>\<open>flags.UserDataDir\<close>: the keys before it, the step, the rest.\<close>

lemma formatLoop_udd:
  assumes "distinct ks" "UserDataDir F \<in> set ks" "visible F (UserDataDir F)"
    "m (UserDataDir F) = Some w"
  shows "formatLoop F Abs m ks h acc =
      (case absUserDataDir Abs h w of
         Inl p \<Rightarrow> (Inl p, h)
       | Inr h' \<Rightarrow> (Inr (acc @ flagBlock F h m (takeWhile (\<lambda>k. k \<noteq> UserDataDir F) ks)
                           @ flagBlock F h' m (dropWhile (\<lambda>k. k \<noteq> UserDataDir F) ks)), h'))"
  using assms
proof (induction ks arbitrary: acc)
  case Nil
  then show ?case by simp
next
  case (Cons k ks)
  show ?case
  proof (cases "k = UserDataDir F")
    case True
    then have "UserDataDir F \<notin> set ks" using Cons.prems by simp
    then show ?thesis using True Cons.prems
      by (auto simp: formatLoop_no_udd visible_def flagStr_render split: sum.splits)
  next
    case False
    then show ?thesis using Cons
      by (auto simp: visible_def flagStr_render split: option.splits sum.splits)
  qed
qed

lemma absUserDataDir_eq:
  "absUserDataDir Abs h v =
     (case index h v 0 of
        Inl p \<Rightarrow> Inl p
      | Inr d \<Rightarrow> (case Abs d of Inl e \<Rightarrow> Inl (PanicError e) | Inr a \<Rightarrow> Inr (h(ptr v := a))))"
  by (cases v) (auto simp: absUserDataDir_def split: sum.splits)

lemma absUserDataDir_Inr:
  "absUserDataDir Abs h w = Inr h' \<Longrightarrow>
   0 < len w \<and> Abs (h (ptr w)) = Inr (h' (ptr w)) \<and> h' = h(ptr w := h' (ptr w))"
  by (cases w) (auto simp: absUserDataDir_eq split: sum.splits if_splits)

lemma formatLoop_cases:
  assumes "distinct ks" "set ks = dom m"
  shows "formatLoop F Abs m ks h acc =
     (case (if visible F (UserDataDir F) then m (UserDataDir F) else None) of
        None \<Rightarrow> (Inr (acc @ flagBlock F h m ks), h)
      | Some w \<Rightarrow>
          (case absUserDataDir Abs h w of
             Inl p \<Rightarrow> (Inl p, h)
           | Inr h' \<Rightarrow>
               (Inr (acc @ flagBlock F h m (takeWhile (\<lambda>k. k \<noteq> UserDataDir F) ks)
                         @ flagBlock F h' m (dropWhile (\<lambda>k. k \<noteq> UserDataDir F) ks)), h')))"
proof (cases "visible F (UserDataDir F) \<and> m (UserDataDir F) \<noteq> None")
  case True
  then obtain w where w: "m (UserDataDir F) = Some w" by auto
  then have "UserDataDir F \<in> set ks" using assms(2) by auto
  then show ?thesis using formatLoop_udd[of ks F m w Abs h acc] assms(1) True w by simp
next
  case False
  then show ?thesis using formatLoop_hidden[of F m Abs ks h acc] by auto
qed

lemma formatLoop_separate:
  assumes "distinct ks" "set ks = dom m" "separate F m ks"
    and run: "formatLoop F Abs m ks h acc = (Inr args, h')"
  shows "args = acc @ flagBlock F h' m ks"
proof (cases "if visible F (UserDataDir F) then m (UserDataDir F) else None")
  case None
  then show ?thesis using run formatLoop_cases[OF assms(1,2), of F Abs h acc] by auto
next
  case (Some w)
  let ?pre = "takeWhile (\<lambda>k. k \<noteq> UserDataDir F) ks"
  let ?post = "dropWhile (\<lambda>k. k \<noteq> UserDataDir F) ks"
  from run Some formatLoop_cases[OF assms(1,2), of F Abs h acc]
  have rw: "absUserDataDir Abs h w = Inr h'"
    and args: "args = acc @ flagBlock F h m ?pre @ flagBlock F h' m ?post"
    by (auto split: sum.splits)
  have h': "h' = h(ptr w := h' (ptr w))" and len: "0 < len w"
    using absUserDataDir_Inr[OF rw] by simp_all
  have "flagBlock F h' m ?pre = flagBlock F h m ?pre"
  proof (rule flagBlock_cong)
    fix k v q
    assume k: "k \<in> set ?pre" and vis: "visible F k" and v: "m k = Some v" and q: "covers v q"
    have "k \<noteq> UserDataDir F" using k by (auto dest: set_takeWhileD)
    moreover have "k \<in> set ks" using k by (auto dest: set_takeWhileD)
    ultimately have "\<not> covers v (ptr w)"
      using assms(3) Some len vis v by (auto simp: separate_def list_all_iff)
    then have "q \<noteq> ptr w" using q by auto
    then show "h' q = h q" using h' by (metis fun_upd_other)
  qed
  moreover have "flagBlock F h' m ks = flagBlock F h' m ?pre @ flagBlock F h' m ?post"
    using flagBlock_append[of F h' m ?pre ?post] by simp
  ultimately show ?thesis using args by simp
qed

text \<open>
  C1. The claim: \<open>FormatArgs\<close> emits the visible flags as a lexicographically sorted
  block and appends the positional values after it in their stored order. The code
  appends the positional values and then sorts the whole list. As amended, \<open>ks\<close> being
  the order of the visit (each key once): when no user-data-dir flag is to be emitted,
  and when one is whose first value \<^verbatim>\<open>filepath.Abs\<close> resolves and lies in a cell that no
  other emitted flag shares, the result of \<open>FormatArgs\<close> is the sorted list of the
  arguments of the visible flags (\<^verbatim>\<open>--name\<close> for a nil list, \<^verbatim>\<open>--name=v1,v2,...\<close>
  otherwise) together with the positional values, the positional values being sorted
  with the rest; the first value of the user-data-dir flag appears as the absolute
  path.
\<close>

theorem FormatArgs_sorts_flags_and_positionals:
  assumes "distinct ks" and "set ks = dom (Flags l)"
  shows "case (if visible F (UserDataDir F) then Flags l (UserDataDir F) else None) of
        None \<Rightarrow>
          fst (FormatArgs F Abs ks l) =
            Inr (sort (flagBlock F (heap l) (Flags l) ks @ elems (heap l) (positional F l)))
      | Some w \<Rightarrow>
          (\<forall>a. 0 < len w \<and> Abs (heap l (ptr w)) = Inr a \<and> separate F (Flags l) ks \<longrightarrow>
             fst (FormatArgs F Abs ks l) =
               Inr (sort (flagBlock F ((heap l)(ptr w := a)) (Flags l) ks @
                          elems ((heap l)(ptr w := a)) (positional F l))))"
proof -
  obtain r h where loop: "formatLoop F Abs (Flags l) ks (heap l) [] = (r, h)"
    by (cases "formatLoop F Abs (Flags l) ks (heap l) []") auto
  note cases = formatLoop_cases[OF assms(1,2), of F Abs "heap l" "[]"]
  show ?thesis
  proof (cases "if visible F (UserDataDir F) then Flags l (UserDataDir F) else None")
    case None
    then show ?thesis using cases by (simp add: FormatArgs_def)
  next
    case (Some w)
    have "fst (FormatArgs F Abs ks l) =
        Inr (sort (flagBlock F ((heap l)(ptr w := a)) (Flags l) ks @
                   elems ((heap l)(ptr w := a)) (positional F l)))"
      if len: "0 < len w" and abs: "Abs (heap l (ptr w)) = Inr a"
        and sep: "separate F (Flags l) ks" for a
    proof -
      have step: "absUserDataDir Abs (heap l) w = Inr ((heap l)(ptr w := a))"
        using len abs by (cases w) (simp_all add: absUserDataDir_eq)
      then obtain execArgs where run:
        "formatLoop F Abs (Flags l) ks (heap l) [] = (Inr execArgs, (heap l)(ptr w := a))"
        using cases Some by simp
      have "execArgs = [] @ flagBlock F ((heap l)(ptr w := a)) (Flags l) ks"
        using formatLoop_separate[OF assms(1,2) sep run] .
      then show ?thesis using run by (simp add: FormatArgs_def)
    qed
    then show ?thesis using Some by simp
  qed
qed

theorem FormatArgs_sorts_flags_and_positionals_witness:
  "distinct order_example \<and> set order_example = dom (Flags store_example) \<and>
   visible flags_example (UserDataDir flags_example) \<and>
   Flags store_example (UserDataDir flags_example) = Some (Slice 2 1 1) \<and>
   0 < len (Slice 2 1 1) \<and>
   Abs_example (heap store_example (ptr (Slice 2 1 1))) = Inr ''/cwd/tmp'' \<and>
   separate flags_example (Flags store_example) order_example \<and>
   fst (FormatArgs flags_example Abs_example order_example store_example) =
     Inr [''--headless'', ''--user-data-dir=/cwd/tmp'', ''https://a.example'',
          ''https://b.example'']"
proof -
  have 1: "distinct order_example" by (simp add: order_example_def)
  have 2: "set order_example = dom (Flags store_example)"
    by (auto simp: order_example_def store_example_def)
  have 3: "visible flags_example (UserDataDir flags_example)"
    by (simp add: visible_def flags_example_def)
  have 4: "Flags store_example (UserDataDir flags_example) = Some (Slice 2 1 1)"
    by (simp add: store_example_def flags_example_def)
  have 5: "Abs_example (heap store_example (ptr (Slice 2 1 1))) = Inr ''/cwd/tmp''"
    by (simp add: store_example_def Abs_example_def)
  have 6: "separate flags_example (Flags store_example) order_example"
    by (simp add: separate_def visible_def order_example_def store_example_def
        flags_example_def)
  have "fst (FormatArgs flags_example Abs_example order_example store_example) =
      Inr (sort (flagBlock flags_example ((heap store_example)(ptr (Slice 2 1 1) := ''/cwd/tmp''))
                   (Flags store_example) order_example @
                 elems ((heap store_example)(ptr (Slice 2 1 1) := ''/cwd/tmp''))
                   (positional flags_example store_example)))"
    using FormatArgs_sorts_flags_and_positionals[OF 1 2, of flags_example Abs_example]
      3 4 5 6 by simp
  then have 7: "fst (FormatArgs flags_example Abs_example order_example store_example) =
     Inr [''--headless'', ''--user-data-dir=/cwd/tmp'', ''https://a.example'',
          ''https://b.example'']"
    by (simp add: visible_def positional_def flags_example_def store_example_def
        order_example_def launcher0_def)
  show ?thesis using 1 2 3 4 5 6 7 by simp
qed

theorem FormatArgs_sorts_positionals_counterexample:
  "FormatArgs flags_example Abs_example [''headless'', []] positional_example =
     (Inr [''--headless'', ''https://a.example'', ''https://b.example''], positional_example) \<and>
   elems (heap positional_example) (positional flags_example positional_example) =
     [''https://b.example'', ''https://a.example''] \<and>
   spec_FormatArgs flags_example [''headless'', []] positional_example =
     [''--headless'', ''https://b.example'', ''https://a.example'']"
  by (simp add: FormatArgs_def spec_FormatArgs_def positional_example_def
      launcher0_def flags_example_def flagStr_def positional_def visible_def)

text \<open>
  C10. The claim: \<open>FormatArgs\<close> rewrites the first value of the user-data-dir flag in
  place to its absolute form and leaves every other flag entry unchanged. The write
  goes to a cell of the heap, so an entry that shares this cell changes with it. As
  amended, \<open>ks\<close> being the order of the visit (each key once): when the user-data-dir
  flag is present and visible, its list is not empty and \<^verbatim>\<open>filepath.Abs\<close> succeeds on
  its first value, \<open>FormatArgs\<close> leaves the state as it was except that the first cell
  of that list holds the absolute path; in every other case it leaves the state as it
  was. The map of flags is never changed, and every slice that does not read this
  cell, so every flag entry that does not share it, has the values it had.
\<close>

theorem FormatArgs_rewrites_one_cell:
  assumes "distinct ks" and "set ks = dom (Flags l)"
  shows "snd (FormatArgs F Abs ks l) =
     (case (if visible F (UserDataDir F) then Flags l (UserDataDir F) else None) of
        None \<Rightarrow> l
      | Some w \<Rightarrow>
          (case index (heap l) w 0 of
             Inl p \<Rightarrow> l
           | Inr d \<Rightarrow>
               (case Abs d of
                  Inl e \<Rightarrow> l
                | Inr a \<Rightarrow> l\<lparr>heap := (heap l)(ptr w := a)\<rparr>))) \<and>
     Flags (snd (FormatArgs F Abs ks l)) = Flags l \<and>
     (\<forall>w s. Flags l (UserDataDir F) = Some w \<and> \<not> covers s (ptr w) \<longrightarrow>
        elems (heap (snd (FormatArgs F Abs ks l))) s = elems (heap l) s)"
proof -
  note cases = formatLoop_cases[OF assms(1,2), of F Abs "heap l" "[]"]
  have st: "snd (FormatArgs F Abs ks l) =
     (case (if visible F (UserDataDir F) then Flags l (UserDataDir F) else None) of
        None \<Rightarrow> l
      | Some w \<Rightarrow>
          (case index (heap l) w 0 of
             Inl p \<Rightarrow> l
           | Inr d \<Rightarrow>
               (case Abs d of
                  Inl e \<Rightarrow> l
                | Inr a \<Rightarrow> l\<lparr>heap := (heap l)(ptr w := a)\<rparr>)))"
    unfolding FormatArgs_def cases
    by (auto simp: absUserDataDir_eq split: option.splits sum.splits)
  have fl: "Flags (snd (FormatArgs F Abs ks l)) = Flags l"
    unfolding st by (auto split: option.splits sum.splits)
  have fr: "elems (heap (snd (FormatArgs F Abs ks l))) s = elems (heap l) s"
    if "Flags l (UserDataDir F) = Some w" and "\<not> covers s (ptr w)" for w s
  proof (rule elems_cong)
    fix q assume "covers s q"
    then have "q \<noteq> ptr w" using that(2) by auto
    then show "heap (snd (FormatArgs F Abs ks l)) q = heap l q"
      unfolding st using that(1) by (auto split: option.splits sum.splits)
  qed
  show ?thesis using st fl fr by blast
qed

theorem FormatArgs_rewrites_one_cell_witness:
  "distinct order_example \<and> set order_example = dom (Flags store_example) \<and>
   snd (FormatArgs flags_example Abs_example order_example store_example) =
     store_example\<lparr>heap := (heap store_example)(2 := ''/cwd/tmp'')\<rparr> \<and>
   Flags store_example (UserDataDir flags_example) = Some (Slice 2 1 1) \<and>
   \<not> covers (Slice 0 2 2) (ptr (Slice 2 1 1)) \<and>
   elems (heap (snd (FormatArgs flags_example Abs_example order_example store_example)))
       (Slice 0 2 2) =
     elems (heap store_example) (Slice 0 2 2)"
proof -
  have 1: "distinct order_example" by (simp add: order_example_def)
  have 2: "set order_example = dom (Flags store_example)"
    by (auto simp: order_example_def store_example_def)
  have 3: "Flags store_example (UserDataDir flags_example) = Some (Slice 2 1 1)"
    by (simp add: store_example_def flags_example_def)
  have 4: "\<not> covers (Slice 0 2 2) (ptr (Slice 2 1 1))" by simp
  note t = FormatArgs_rewrites_one_cell[OF 1 2, of flags_example Abs_example]
  have 5: "snd (FormatArgs flags_example Abs_example order_example store_example) =
     store_example\<lparr>heap := (heap store_example)(2 := ''/cwd/tmp'')\<rparr>"
    using t[THEN conjunct1]
    by (simp add: visible_def Abs_example_def flags_example_def store_example_def
        launcher0_def)
  have 6: "elems (heap (snd (FormatArgs flags_example Abs_example order_example store_example)))
       (Slice 0 2 2) = elems (heap store_example) (Slice 0 2 2)"
    using t[THEN conjunct2, THEN conjunct2] 3 4 by blast
  show ?thesis using 1 2 3 4 5 6 by blast
qed

theorem FormatArgs_shared_cell_counterexample:
  "Set flags_example ''x'' (Slice 0 1 1) shared_before =
     Inr (shared_before\<lparr>Flags := [''x'' \<mapsto> Slice 0 1 1]\<rparr>) \<and>
   Set flags_example ''user-data-dir'' (Slice 0 1 1)
       (shared_before\<lparr>Flags := [''x'' \<mapsto> Slice 0 1 1]\<rparr>) = Inr shared_example \<and>
   Get flags_example ''x'' shared_example = Inr ''tmp'' \<and>
   FormatArgs flags_example Abs_example [''x'', ''user-data-dir''] shared_example =
     (Inr [''--user-data-dir=/cwd/tmp'', ''--x=tmp''],
      shared_example\<lparr>heap := (heap shared_example)(0 := ''/cwd/tmp'')\<rparr>) \<and>
   Get flags_example ''x'' (shared_example\<lparr>heap := (heap shared_example)(0 := ''/cwd/tmp'')\<rparr>) =
     Inr ''/cwd/tmp''"
  by (simp add: Set_def Get_def GetFlags_def FormatArgs_def absUserDataDir_def
      shared_example_def shared_before_def launcher0_def flags_example_def Abs_example_def
      flagStr_def positional_def)







subsection \<open>Properties of the supervisor\<close>

lemma Kill_trace:
  "Kill w l =
     l\<lparr>trace := trace l @ Sleep 1 #
        (if pid l = 0 then []
         else KillGroup (pid l) # (if FindProcess w (pid l) then [KillProcess (pid l)] else []))\<rparr>"
  by (simp add: Kill_def PID_def Let_def)

lemma Kill_isLaunched: "isLaunched (Kill w l) = isLaunched l"
  by (simp add: Kill_trace)

lemma getBin_isLaunched: "getBin F w l = (r, l') \<Longrightarrow> isLaunched l' = isLaunched l"
  by (auto simp: getBin_def split: sum.splits if_splits)

lemma setupUserPreferences_isLaunched:
  "setupUserPreferences F w l = (r, l') \<Longrightarrow> isLaunched l' = isLaunched l"
  by (auto simp: setupUserPreferences_def Let_def split: sum.splits if_splits option.splits)

lemma FormatArgs_isLaunched: "FormatArgs F Abs ks l = (r, l') \<Longrightarrow> isLaunched l' = isLaunched l"
  by (auto simp: FormatArgs_def split: prod.splits sum.splits)

lemma launch_prepare_isLaunched:
  "launch_prepare F w l = (r, l') \<Longrightarrow> isLaunched l' = isLaunched l"
  unfolding launch_prepare_def
  by (auto split: prod.splits sum.splits option.splits
      dest!: getBin_isLaunched setupUserPreferences_isLaunched FormatArgs_isLaunched)

lemma launch_command_state: "launch_command F w l = (r, l') \<Longrightarrow> l' = l"
  by (auto simp: launch_command_def split: sum.splits if_splits)

lemma launch_start_isLaunched:
  "launch_start F w k bin args l = (r, l') \<Longrightarrow> isLaunched l' = isLaunched l"
  by (auto simp: launch_start_def Let_def split: sum.splits if_splits option.splits)

lemma launch_wait_isLaunched: "launch_wait w l = (r, l') \<Longrightarrow> isLaunched l' = isLaunched l"
  by (auto simp: launch_wait_def Kill_isLaunched split: option.splits)

lemma launch_body_isLaunched: "launch_body F w l = (r, l') \<Longrightarrow> isLaunched l' = isLaunched l"
  unfolding launch_body_def
  by (auto split: prod.splits sum.splits
      dest!: launch_prepare_isLaunched launch_command_state launch_start_isLaunched
        launch_wait_isLaunched)

lemma ctxCancel_deferred_isLaunched:
  "ctxCancel_deferred (r, l) = (r', l') \<Longrightarrow> isLaunched l' = isLaunched l"
  by (auto simp: ctxCancel_deferred_def split: if_splits)

lemma Launch_latched:
  "isLaunched l \<noteq> 0 \<Longrightarrow> Launch F w l = (Returned (Inl ErrAlreadyLaunched), l)"
  by (simp add: Launch_def hasLaunched_def)

lemma Launch_first:
  "isLaunched l = 0 \<Longrightarrow>
   Launch F w l = ctxCancel_deferred (launch_body F w (l\<lparr>isLaunched := 1\<rparr>))"
  by (simp add: Launch_def hasLaunched_def)

lemma Launch_sets_latch: "isLaunched (snd (Launch F w l)) \<noteq> 0"
proof (cases "isLaunched l = 0")
  case True
  obtain r l1 where body: "launch_body F w (l\<lparr>isLaunched := 1\<rparr>) = (r, l1)"
    by (cases "launch_body F w (l\<lparr>isLaunched := 1\<rparr>)") auto
  obtain r' l2 where fin: "ctxCancel_deferred (r, l1) = (r', l2)"
    by (cases "ctxCancel_deferred (r, l1)") auto
  have "isLaunched l2 = 1"
    using launch_body_isLaunched[OF body] ctxCancel_deferred_isLaunched[OF fin] by simp
  then show ?thesis using True body fin by (simp add: Launch_first)
next
  case False
  then show ?thesis by (simp add: Launch_latched)
qed


lemmas supervisor_defs =
  Launch_def hasLaunched_def ctxCancel_deferred_def launch_body_def launch_prepare_def
  launch_command_def launch_start_def launch_wait_def getBin_def setupUserPreferences_def
  setupCmd_def Command_def getURL_def Kill_def PID_def Get_def GetFlags_def Has_def
  FormatArgs_def
  absUserDataDir_def flagStr_def positional_def

lemmas example_defs =
  flags_example_def world_example_def launcher_example_def launcher0_def Abs_example_def
  cmd_example_def

text \<open>The stages of \<open>Launch\<close> on the example, up to the spawn.\<close>

lemma prepare_example:
  "launch_prepare flags_example (world_example\<lparr>fired := f, ResolveURL_port := r, ResolveURL_final := r'\<rparr>)
     (launcher_example\<lparr>isLaunched := 1\<rparr>) =
   (Inr (''chrome'', [''--remote-debugging-port=9222'', ''--user-data-dir=/tmp/rod'']),
    launcher_example\<lparr>isLaunched := 1\<rparr>)"
  by (simp add: supervisor_defs example_defs)

lemma start_example:
  "launch_start flags_example (world_example\<lparr>fired := f, ResolveURL_port := r, ResolveURL_final := r'\<rparr>) False
     ''chrome'' [''--remote-debugging-port=9222'', ''--user-data-dir=/tmp/rod'']
     (launcher_example\<lparr>isLaunched := 1\<rparr>) =
   (Inr (), launcher_example\<lparr>isLaunched := 1, trace := [Start cmd_example], pid := 4242\<rparr>)"
  by (simp add: supervisor_defs example_defs)


lemma Launch_after_spawn:
  assumes "isLaunched l = 0"
    and "launch_prepare F w (l\<lparr>isLaunched := 1\<rparr>) = (Inr (bin, args), l1)"
    and "launch_command F w l1 = (Inr leakless, l2)"
    and "launch_start F w leakless bin args l2 = (Inr (), l3)"
  shows "Launch F w l = ctxCancel_deferred (launch_wait w l3)"
  using assms by (simp add: Launch_first launch_body_def)

text \<open>
  C2. Only the first call of \<open>Launch\<close> on a launcher goes on to resolve the binary
  and to spawn. The latch \<open>isLaunched\<close> is set by one atomic compare-and-swap, which
  every call performs first: on a launcher whose latch is set, \<open>Launch\<close> returns
  \<open>ErrAlreadyLaunched\<close> and leaves the whole state as it is (no event is added to the
  trace, so nothing is spawned); on one whose latch is clear it sets the latch and runs
  the body. The latch is set as soon as the first compare-and-swap is done, a second
  compare-and-swap finds it set, and it is still set whenever and however \<open>Launch\<close>
  ends: any call whose compare-and-swap comes after the first one, during the first
  call or after it, is refused.
\<close>

theorem Launch_only_once:
  "(isLaunched l \<noteq> 0 \<longrightarrow> Launch F w l = (Returned (Inl ErrAlreadyLaunched), l)) \<and>
   (isLaunched l = 0 \<longrightarrow>
      Launch F w l = ctxCancel_deferred (launch_body F w (l\<lparr>isLaunched := 1\<rparr>))) \<and>
   isLaunched (snd (hasLaunched l)) \<noteq> 0 \<and>
   fst (hasLaunched (snd (hasLaunched l))) \<and>
   snd (hasLaunched (snd (hasLaunched l))) = snd (hasLaunched l) \<and>
   isLaunched (snd (Launch F w l)) \<noteq> 0 \<and>
   Launch F w' (snd (Launch F w l)) =
     (Returned (Inl ErrAlreadyLaunched), snd (Launch F w l))"
proof -
  have "isLaunched (snd (hasLaunched l)) \<noteq> 0"
    and "fst (hasLaunched (snd (hasLaunched l)))"
    and "snd (hasLaunched (snd (hasLaunched l))) = snd (hasLaunched l)"
    by (simp_all add: hasLaunched_def)
  moreover have "Launch F w' (snd (Launch F w l)) =
     (Returned (Inl ErrAlreadyLaunched), snd (Launch F w l))"
    using Launch_sets_latch[of F w l] by (rule Launch_latched)
  ultimately show ?thesis
    using Launch_sets_latch[of F w l] by (simp add: Launch_latched Launch_first)
qed

theorem Launch_only_once_witness:
  "isLaunched launcher_example = 0 \<and>
   Launch flags_example world_example launcher_example =
     (Returned (Inr ''ws://127.0.0.1:9222/devtools/browser/b1''),
      launcher_example\<lparr>isLaunched := 1, trace := [Start cmd_example], pid := 4242,
        ctxCancelled := True\<rparr>) \<and>
   isLaunched (launcher_example\<lparr>isLaunched := 1, trace := [Start cmd_example], pid := 4242,
        ctxCancelled := True\<rparr>) \<noteq> 0 \<and>
   Launch flags_example world_example
       (launcher_example\<lparr>isLaunched := 1, trace := [Start cmd_example], pid := 4242,
          ctxCancelled := True\<rparr>) =
     (Returned (Inl ErrAlreadyLaunched),
      launcher_example\<lparr>isLaunched := 1, trace := [Start cmd_example], pid := 4242,
        ctxCancelled := True\<rparr>)"
proof -
  have 0: "isLaunched launcher_example = 0" by (simp add: example_defs)
  have 1: "Launch flags_example world_example launcher_example =
     (Returned (Inr ''ws://127.0.0.1:9222/devtools/browser/b1''),
      launcher_example\<lparr>isLaunched := 1, trace := [Start cmd_example], pid := 4242,
        ctxCancelled := True\<rparr>)"
    by (simp add: supervisor_defs example_defs)
  have 2: "isLaunched (launcher_example\<lparr>isLaunched := 1, trace := [Start cmd_example],
      pid := 4242, ctxCancelled := True\<rparr>) \<noteq> 0" by simp
  show ?thesis
    using Launch_only_once[of launcher_example flags_example world_example world_example]
      0 1 2 by simp
qed

text \<open>
  C4. The claim: \<open>Kill\<close> on a launcher whose tracked pid is 0 is a no-op that sends
  no kill, and with a process started it kills the group of the tracked pid and then
  the tracked pid itself. The code kills the pid itself only when \<^verbatim>\<open>os.FindProcess\<close>
  returns its process. As amended: \<open>Kill\<close> sleeps; with the tracked pid 0 it then
  returns, having added no kill to the trace (it has no error to return); with any
  other pid it calls \<^verbatim>\<open>killGroup\<close> on the pid, whatever \<^verbatim>\<open>os.FindProcess\<close> says, and
  then, when \<^verbatim>\<open>os.FindProcess\<close> returns the process of that pid, \<^verbatim>\<open>Kill\<close> on that process.
  No kill it issues is aimed at pid 0, and nothing but the trace changes.
\<close>

theorem Kill_noop_without_process:
  "Kill w l =
     l\<lparr>trace := trace l @ Sleep 1 #
        (if pid l = 0 then []
         else KillGroup (pid l) # (if FindProcess w (pid l) then [KillProcess (pid l)] else []))\<rparr> \<and>
   KillGroup 0 \<notin> set (drop (length (trace l)) (trace (Kill w l))) \<and>
   KillProcess 0 \<notin> set (drop (length (trace l)) (trace (Kill w l)))"
  by (simp add: Kill_trace)

theorem Kill_noop_without_process_witness:
  "pid launcher_example = 0 \<and>
   Kill world_example launcher_example = launcher_example\<lparr>trace := [Sleep 1]\<rparr> \<and>
   pid (launcher_example\<lparr>pid := 4242\<rparr>) \<noteq> 0 \<and>
   FindProcess world_example (pid (launcher_example\<lparr>pid := 4242\<rparr>)) \<and>
   Kill world_example (launcher_example\<lparr>pid := 4242\<rparr>) =
     launcher_example\<lparr>pid := 4242, trace := [Sleep 1, KillGroup 4242, KillProcess 4242]\<rparr>"
  using Kill_noop_without_process[of world_example launcher_example]
    Kill_noop_without_process[of world_example "launcher_example\<lparr>pid := 4242\<rparr>"]
  by (simp add: example_defs)

theorem Kill_process_not_found_counterexample:
  "pid (launcher_example\<lparr>pid := 4242\<rparr>) = 4242 \<and>
   FindProcess (world_example\<lparr>FindProcess := (\<lambda>p. False)\<rparr>) 4242 = False \<and>
   Kill (world_example\<lparr>FindProcess := (\<lambda>p. False)\<rparr>) (launcher_example\<lparr>pid := 4242\<rparr>) =
     launcher_example\<lparr>pid := 4242, trace := [Sleep 1, KillGroup 4242]\<rparr>"
  by (simp add: Kill_def PID_def example_defs)

text \<open>
  C5. The claim: after the spawn, \<open>Launch\<close> returns by whichever of three signals
  fires first: the cancellation of the context (failure with the context's error), a
  URL from the parser (success with that URL), the exit of the process (failure with
  the parser's error). On a URL the code returns what \<^verbatim>\<open>ResolveURL\<close> makes of it, which
  may be an error or another URL. As amended, for a launcher on which the spawn has
  succeeded: when the cancellation fires first, \<open>Launch\<close> fails with \<^verbatim>\<open>ctx.Err()\<close>; when a
  URL \<open>u\<close> from the parser does, \<open>Launch\<close> returns the result of \<^verbatim>\<open>ResolveURL(u)\<close>; when
  the exit of the process does and the parser reports an error, \<open>Launch\<close> fails with
  that error.
\<close>

theorem Launch_select_race:
  assumes "isLaunched l = 0"
    and "launch_prepare F w (l\<lparr>isLaunched := 1\<rparr>) = (Inr (bin, args), l1)"
    and "launch_command F w l1 = (Inr leakless, l2)"
    and "launch_start F w leakless bin args l2 = (Inr (), l3)"
  shows "(fired w = Some CtxDone \<longrightarrow> fst (Launch F w l) = Returned (Inl (ctxErr w))) \<and>
     (\<forall>u. fired w = Some (URLDelivered u) \<longrightarrow>
        fst (Launch F w l) = Returned (ResolveURL_final w u)) \<and>
     (\<forall>err. fired w = Some ProcessExited \<and> parserErr w = Some err \<longrightarrow>
        fst (Launch F w l) = Returned (Inl err))"
  unfolding Launch_after_spawn[OF assms]
  by (simp add: launch_wait_def getURL_def ctxCancel_deferred_def)

theorem Launch_select_race_witness:
  "isLaunched launcher_example = 0 \<and>
   fired (world_example\<lparr>fired := Some CtxDone\<rparr>) = Some CtxDone \<and>
   fst (Launch flags_example (world_example\<lparr>fired := Some CtxDone\<rparr>) launcher_example) =
     Returned (Inl (Err ''context canceled'')) \<and>
   fired world_example = Some (URLDelivered ''ws://127.0.0.1:9222/devtools/browser/b1'') \<and>
   fst (Launch flags_example world_example launcher_example) =
     Returned (Inr ''ws://127.0.0.1:9222/devtools/browser/b1'') \<and>
   fired (world_example\<lparr>fired := Some ProcessExited\<rparr>) = Some ProcessExited \<and>
   parserErr (world_example\<lparr>fired := Some ProcessExited\<rparr>) =
     Some (Err ''[launcher] Failed to get the debug url'') \<and>
   fst (Launch flags_example (world_example\<lparr>fired := Some ProcessExited\<rparr>) launcher_example) =
     Returned (Inl (Err ''[launcher] Failed to get the debug url''))"
proof -
  have 0: "isLaunched launcher_example = 0" by (simp add: example_defs)
  have 1: "launch_prepare flags_example (world_example\<lparr>fired := f\<rparr>)
       (launcher_example\<lparr>isLaunched := 1\<rparr>) =
     (Inr (''chrome'', [''--remote-debugging-port=9222'', ''--user-data-dir=/tmp/rod'']),
      launcher_example\<lparr>isLaunched := 1\<rparr>)" for f
    by (simp add: supervisor_defs example_defs)
  have 2: "launch_command flags_example (world_example\<lparr>fired := f\<rparr>)
       (launcher_example\<lparr>isLaunched := 1\<rparr>) =
     (Inr False, launcher_example\<lparr>isLaunched := 1\<rparr>)" for f
    by (simp add: supervisor_defs example_defs)
  have 3: "launch_start flags_example (world_example\<lparr>fired := f\<rparr>) False ''chrome''
       [''--remote-debugging-port=9222'', ''--user-data-dir=/tmp/rod'']
       (launcher_example\<lparr>isLaunched := 1\<rparr>) =
     (Inr (), launcher_example\<lparr>isLaunched := 1, trace := [Start cmd_example], pid := 4242\<rparr>)"
    for f
    by (simp add: supervisor_defs example_defs)
  have w: "world_example\<lparr>fired := fired world_example\<rparr> = world_example" by simp
  have a: "fst (Launch flags_example (world_example\<lparr>fired := Some CtxDone\<rparr>)
      launcher_example) = Returned (Inl (Err ''context canceled''))"
    using Launch_select_race[OF 0 1 2 3, of "Some CtxDone"]
    by (simp add: world_example_def)
  have b: "fst (Launch flags_example world_example launcher_example) =
      Returned (Inr ''ws://127.0.0.1:9222/devtools/browser/b1'')"
    using Launch_select_race[OF 0 1 2 3, of "fired world_example"] unfolding w
    by (simp add: world_example_def)
  have c: "fst (Launch flags_example (world_example\<lparr>fired := Some ProcessExited\<rparr>)
      launcher_example) = Returned (Inl (Err ''[launcher] Failed to get the debug url''))"
    using Launch_select_race[OF 0 1 2 3, of "Some ProcessExited"]
    by (simp add: world_example_def)
  show ?thesis using 0 a b c by (simp add: world_example_def)
qed

theorem Launch_url_then_resolve_fails_counterexample:
  "fired (world_example\<lparr>ResolveURL_final := (\<lambda>u. Inl (Err ''connection refused''))\<rparr>) =
     Some (URLDelivered ''ws://127.0.0.1:9222/devtools/browser/b1'') \<and>
   Launch flags_example
       (world_example\<lparr>ResolveURL_final := (\<lambda>u. Inl (Err ''connection refused''))\<rparr>)
       launcher_example =
     (Returned (Inl (Err ''connection refused'')),
      launcher_example\<lparr>isLaunched := 1, pid := 4242, ctxCancelled := True,
        trace := [Start cmd_example]\<rparr>)"
  by (simp add: supervisor_defs example_defs)

text \<open>
  C6. The claim: without leakless, \<open>Launch\<close> first tries to reconnect to the debugging
  port and returns the URL of the running browser without spawning; and it tells the
  error of a port on which nothing listens (go ahead and spawn) from other errors of
  the connection. The code spawns on every error of \<^verbatim>\<open>ResolveURL(port)\<close>. As amended:
  once the binary is resolved and the arguments are formatted (\<open>l1\<close> being the state
  then), if the leakless flag is absent or leakless unsupported, \<open>Launch\<close> calls
  \<^verbatim>\<open>ResolveURL\<close> on the first value of the port flag; when that yields a URL, \<open>Launch\<close>
  returns it and starts no command; when it yields an error, whichever it is, \<open>Launch\<close>
  goes on to start the command, and its outcome is the same for any two errors.
\<close>

theorem Launch_reconnect_or_spawn:
  assumes "isLaunched l = 0"
    and "launch_prepare F w (l\<lparr>isLaunched := 1\<rparr>) = (Inr (bin, args), l1)"
    and "\<not> (Has F (Leakless F) l1 \<and> leaklessSupport w)"
    and "Get F (RemoteDebuggingPort F) l1 = Inr port"
  shows "Launch F w l =
     (case ResolveURL_port w port of
        Inr u \<Rightarrow> (Returned (Inr u), l1\<lparr>ctxCancelled := True\<rparr>)
      | Inl err \<Rightarrow>
          ctxCancel_deferred
            (case launch_start F w False bin args l1 of
               (Inl r, l3) \<Rightarrow> (r, l3)
             | (Inr x, l3) \<Rightarrow> launch_wait w l3)) \<and>
     (\<forall>g e e'. ResolveURL_port w port = Inl e \<and> g port = Inl e' \<longrightarrow>
        Launch F (w\<lparr>ResolveURL_port := g\<rparr>) l = Launch F w l)"
proof -
  have run: "Launch F v l =
     (case ResolveURL_port v port of
        Inr u \<Rightarrow> (Returned (Inr u), l1\<lparr>ctxCancelled := True\<rparr>)
      | Inl err \<Rightarrow>
          ctxCancel_deferred
            (case launch_start F v False bin args l1 of
               (Inl r, l3) \<Rightarrow> (r, l3)
             | (Inr x, l3) \<Rightarrow> launch_wait v l3))"
    if prep: "launch_prepare F v (l\<lparr>isLaunched := 1\<rparr>) = (Inr (bin, args), l1)"
      and nl: "\<not> (Has F (Leakless F) l1 \<and> leaklessSupport v)" for v
  proof -
    have "launch_command F v l1 =
       (case ResolveURL_port v port of
          Inr u \<Rightarrow> (Inl (Returned (Inr u)), l1)
        | Inl err \<Rightarrow> (Inr False, l1))"
      using nl assms(4) by (auto simp: launch_command_def)
    then show ?thesis
      using assms(1) prep
      by (simp add: Launch_first launch_body_def ctxCancel_deferred_def split: sum.splits)
  qed
  have same: "Launch F (w\<lparr>ResolveURL_port := g\<rparr>) l = Launch F w l"
    if "ResolveURL_port w port = Inl e" and "g port = Inl e'" for g e e'
  proof -
    let ?v = "w\<lparr>ResolveURL_port := g\<rparr>"
    have "launch_prepare F ?v = launch_prepare F w"
      by (rule ext)
        (simp add: launch_prepare_def getBin_def setupUserPreferences_def
          cong: sum.case_cong prod.case_cong option.case_cong if_cong)
    then have 1: "launch_prepare F ?v (l\<lparr>isLaunched := 1\<rparr>) = (Inr (bin, args), l1)"
      using assms(2) by simp
    have 2: "\<not> (Has F (Leakless F) l1 \<and> leaklessSupport ?v)" using assms(3) by simp
    have 3: "launch_start F ?v False bin args l1 = launch_start F w False bin args l1"
      by (simp add: launch_start_def setupCmd_def cong: sum.case_cong option.case_cong if_cong)
    have 4: "launch_wait ?v = launch_wait w"
      by (rule ext)
        (simp add: launch_wait_def getURL_def Kill_def
          cong: sum.case_cong prod.case_cong option.case_cong signal.case_cong if_cong)
    show ?thesis
      using run[OF 1 2] run[OF assms(2,3)] that
      by (simp add: 3 4 cong: sum.case_cong prod.case_cong)
  qed
  show ?thesis using run[OF assms(2,3)] same by blast
qed

theorem Launch_reconnect_or_spawn_witness:
  "isLaunched launcher_example = 0 \<and>
   \<not> Has flags_example (Leakless flags_example) (launcher_example\<lparr>isLaunched := 1\<rparr>) \<and>
   Get flags_example (RemoteDebuggingPort flags_example) (launcher_example\<lparr>isLaunched := 1\<rparr>) =
     Inr ''9222'' \<and>
   Launch flags_example
       (world_example\<lparr>ResolveURL_port :=
          (\<lambda>port. Inr ''ws://127.0.0.1:9222/devtools/browser/b0'')\<rparr>)
       launcher_example =
     (Returned (Inr ''ws://127.0.0.1:9222/devtools/browser/b0''),
      launcher_example\<lparr>isLaunched := 1, ctxCancelled := True\<rparr>)"
proof -
  let ?w = "world_example\<lparr>ResolveURL_port :=
          (\<lambda>port. Inr ''ws://127.0.0.1:9222/devtools/browser/b0'')\<rparr>"
  have 0: "isLaunched launcher_example = 0" by (simp add: example_defs)
  have 1: "launch_prepare flags_example ?w (launcher_example\<lparr>isLaunched := 1\<rparr>) =
     (Inr (''chrome'', [''--remote-debugging-port=9222'', ''--user-data-dir=/tmp/rod'']),
      launcher_example\<lparr>isLaunched := 1\<rparr>)"
    by (simp add: supervisor_defs example_defs)
  have 2: "\<not> (Has flags_example (Leakless flags_example) (launcher_example\<lparr>isLaunched := 1\<rparr>) \<and>
      leaklessSupport ?w)"
    by (simp add: supervisor_defs example_defs)
  have 3: "Get flags_example (RemoteDebuggingPort flags_example)
      (launcher_example\<lparr>isLaunched := 1\<rparr>) = Inr ''9222''"
    by (simp add: supervisor_defs example_defs)
  have 4: "\<not> Has flags_example (Leakless flags_example) (launcher_example\<lparr>isLaunched := 1\<rparr>)"
    by (simp add: supervisor_defs example_defs)
  show ?thesis
    using Launch_reconnect_or_spawn[OF 0 1 2 3, THEN conjunct1] 0 3 4 by simp
qed

theorem Launch_spawns_on_any_error_counterexample:
  "ResolveURL_port world_example ''9222'' = Inl (Err ''connection refused'') \<and>
   Launch flags_example world_example launcher_example =
     (Returned (Inr ''ws://127.0.0.1:9222/devtools/browser/b1''),
      launcher_example\<lparr>isLaunched := 1, trace := [Start cmd_example], pid := 4242,
        ctxCancelled := True\<rparr>) \<and>
   ResolveURL_port (world_example\<lparr>ResolveURL_port := (\<lambda>port. Inl (Err ''i/o timeout''))\<rparr>)
       ''9222'' = Inl (Err ''i/o timeout'') \<and>
   Launch flags_example (world_example\<lparr>ResolveURL_port := (\<lambda>port. Inl (Err ''i/o timeout''))\<rparr>)
       launcher_example =
     (Returned (Inr ''ws://127.0.0.1:9222/devtools/browser/b1''),
      launcher_example\<lparr>isLaunched := 1, trace := [Start cmd_example], pid := 4242,
        ctxCancelled := True\<rparr>)"
  by (simp add: supervisor_defs example_defs)

text \<open>
  C9. If \<open>Launch\<close> has spawned the process (\<open>l3\<close> being the state after the spawn)
  and \<^verbatim>\<open>getURL\<close> then returns an error (the context is done, or the process has exited
  and the parser reports an error), \<open>Launch\<close> calls \<open>Kill\<close> before it returns that
  error. The pid tracked in \<open>l3\<close> is that of the process just started: \<^verbatim>\<open>cmd.Process.Pid\<close>
  for a plain command, the pid received from \<^verbatim>\<open>ll.Pid()\<close> for a leakless one. The state
  \<open>Launch\<close> leaves is that of \<open>Kill\<close> on \<open>l3\<close> (with the context cancelled), whose trace
  is that of \<open>l3\<close>, ending in the start of the command, followed by the sleep and,
  the pid not being 0, the kill of the group of that pid and the kill of its process
  when \<^verbatim>\<open>os.FindProcess\<close> returns it.
\<close>

theorem Launch_kills_on_getURL_error:
  assumes "isLaunched l = 0"
    and "launch_prepare F w (l\<lparr>isLaunched := 1\<rparr>) = (Inr (bin, args), l1)"
    and "launch_command F w l1 = (Inr leakless, l2)"
    and "launch_start F w leakless bin args l2 = (Inr (), l3)"
    and "getURL w = Some (u, Some err)"
  shows "Launch F w l = (Returned (Inl err), (Kill w l3)\<lparr>ctxCancelled := True\<rparr>) \<and>
     (\<exists>c. trace l3 = trace l2 @ [Start c]) \<and>
     (if leakless then leaklessPid w = Some (pid l3) else pid l3 = processPid w) \<and>
     trace ((Kill w l3)\<lparr>ctxCancelled := True\<rparr>) =
       trace l3 @ Sleep 1 #
         (if pid l3 = 0 then []
          else KillGroup (pid l3) #
            (if FindProcess w (pid l3) then [KillProcess (pid l3)] else []))"
proof -
  have "Launch F w l = (Returned (Inl err), (Kill w l3)\<lparr>ctxCancelled := True\<rparr>)"
    unfolding Launch_after_spawn[OF assms(1-4)]
    using assms(5) by (simp add: launch_wait_def ctxCancel_deferred_def)
  moreover have "\<exists>c. trace l3 = trace l2 @ [Start c]"
    using assms(4)
    by (auto simp: launch_start_def Let_def split: sum.splits option.splits if_splits)
  moreover have "if leakless then leaklessPid w = Some (pid l3) else pid l3 = processPid w"
    using assms(4)
    by (auto simp: launch_start_def Let_def split: sum.splits option.splits if_splits)
  ultimately show ?thesis by (simp add: Kill_trace)
qed

theorem Launch_kills_on_getURL_error_witness:
  "isLaunched launcher_example = 0 \<and>
   getURL (world_example\<lparr>fired := Some ProcessExited\<rparr>) =
     Some ([], Some (Err ''[launcher] Failed to get the debug url'')) \<and>
   processPid (world_example\<lparr>fired := Some ProcessExited\<rparr>) = 4242 \<and>
   Launch flags_example (world_example\<lparr>fired := Some ProcessExited\<rparr>) launcher_example =
     (Returned (Inl (Err ''[launcher] Failed to get the debug url'')),
      launcher_example\<lparr>isLaunched := 1, pid := 4242, ctxCancelled := True,
        trace := [Start cmd_example, Sleep 1, KillGroup 4242, KillProcess 4242]\<rparr>)"
proof -
  let ?w = "world_example\<lparr>fired := Some ProcessExited\<rparr>"
  have 0: "isLaunched launcher_example = 0" by (simp add: example_defs)
  have 1: "launch_prepare flags_example ?w (launcher_example\<lparr>isLaunched := 1\<rparr>) =
     (Inr (''chrome'', [''--remote-debugging-port=9222'', ''--user-data-dir=/tmp/rod'']),
      launcher_example\<lparr>isLaunched := 1\<rparr>)"
    by (simp add: supervisor_defs example_defs)
  have 2: "launch_command flags_example ?w (launcher_example\<lparr>isLaunched := 1\<rparr>) =
     (Inr False, launcher_example\<lparr>isLaunched := 1\<rparr>)"
    by (simp add: supervisor_defs example_defs)
  have 3: "launch_start flags_example ?w False ''chrome''
       [''--remote-debugging-port=9222'', ''--user-data-dir=/tmp/rod'']
       (launcher_example\<lparr>isLaunched := 1\<rparr>) =
     (Inr (), launcher_example\<lparr>isLaunched := 1, trace := [Start cmd_example], pid := 4242\<rparr>)"
    by (simp add: supervisor_defs example_defs)
  have 4: "getURL ?w = Some ([], Some (Err ''[launcher] Failed to get the debug url''))"
    by (simp add: getURL_def world_example_def)
  have 5: "processPid ?w = 4242" by (simp add: world_example_def)
  show ?thesis
    using Launch_kills_on_getURL_error[OF 0 1 2 3 4] 0 4 5
    by (simp add: Kill_trace world_example_def launcher_example_def launcher0_def)
qed

subsection \<open>The one-shot connect of the transport\<close>

text \<open>
  C8. \<open>Connect\<close> is one-shot: whatever the handshake of the first call yields (no
  error, or an error), a second call on the same instance panics, performs no
  handshake and leaves the instance as it is. On an instance never connected the
  first call yields the outcome of its handshake.
\<close>

theorem Connect_twice_fails:
  "fst (Connect h2 (snd (Connect h1 ws))) = Inl (PanicMsg ''duplicated connection'') \<and>
   snd (Connect h2 (snd (Connect h1 ws))) = snd (Connect h1 ws) \<and>
   handshakes (snd (Connect h2 (snd (Connect h1 ws)))) = handshakes (snd (Connect h1 ws)) \<and>
   (\<not> connectCalled ws \<longrightarrow> fst (Connect h1 ws) = Inr h1)"
  by (simp add: Connect_def)

theorem Connect_twice_fails_witness:
  "\<not> connectCalled \<lparr>connectCalled = False, handshakes = 0\<rparr> \<and>
   Connect (Some (Err ''websocket bad handshake: 200 OK''))
       \<lparr>connectCalled = False, handshakes = 0\<rparr> =
     (Inr (Some (Err ''websocket bad handshake: 200 OK'')),
      \<lparr>connectCalled = True, handshakes = 1\<rparr>) \<and>
   Connect None \<lparr>connectCalled = True, handshakes = 1\<rparr> =
     (Inl (PanicMsg ''duplicated connection''), \<lparr>connectCalled = True, handshakes = 1\<rparr>)"
  using Connect_twice_fails[of None "Some (Err ''websocket bad handshake: 200 OK'')"
      "\<lparr>connectCalled = False, handshakes = 0\<rparr>"]
  by (simp add: Connect_def)

end
